theory Spec2Isabelle
  imports Main
begin

section \<open>JavaScript strings and the built-ins used by \<open>ibanUtils.ts\<close>\<close>

text \<open>
  A JavaScript string is a sequence of UTF-16 code units; \<open>length\<close>, \<open>slice\<close>,
  \<open>split('')\<close>, \<open>charCodeAt\<close> and regular expressions without the \<open>u\<close> flag all
  count and match code units. A string is therefore a list of code units, each a natural
  number. \<open>js\<close> turns an ASCII literal into such a list.
\<close>

type_synonym jsstring = "nat list"

definition js :: "string \<Rightarrow> jsstring" where
  "js s = map of_char s"

text \<open>
  The class \<open>\s\<close> of a regular expression, which is also what \<open>trim\<close> removes:
  ECMAScript's WhiteSpace (TAB, VT, FF, SP, NBSP, ZWNBSP and the Unicode space separators)
  and LineTerminator (LF, CR, LS, PS).
\<close>

definition isWhiteSpace :: "nat \<Rightarrow> bool" where
  "isWhiteSpace c \<longleftrightarrow>
     c = 0x9 \<or> c = 0xA \<or> c = 0xB \<or> c = 0xC \<or> c = 0xD \<or> c = 0x20 \<or> c = 0xA0 \<or>
     c = 0x1680 \<or> (0x2000 \<le> c \<and> c \<le> 0x200A) \<or> c = 0x2028 \<or> c = 0x2029 \<or>
     c = 0x202F \<or> c = 0x205F \<or> c = 0x3000 \<or> c = 0xFEFF"

text \<open>The character classes \<open>[A-Z]\<close>, \<open>[a-z]\<close>, \<open>[0-9]\<close> of the regular expressions.\<close>

definition isUpperAZ :: "nat \<Rightarrow> bool" where
  "isUpperAZ c \<longleftrightarrow> 0x41 \<le> c \<and> c \<le> 0x5A"

definition isLowerAZ :: "nat \<Rightarrow> bool" where
  "isLowerAZ c \<longleftrightarrow> 0x61 \<le> c \<and> c \<le> 0x7A"

definition isDigit09 :: "nat \<Rightarrow> bool" where
  "isDigit09 c \<longleftrightarrow> 0x30 \<le> c \<and> c \<le> 0x39"

text \<open>\<open>s.replace(/\s/g, '')\<close>: every white space code unit is deleted.\<close>

definition removeWhitespace :: "jsstring \<Rightarrow> jsstring" where
  "removeWhitespace s = filter (\<lambda>c. \<not> isWhiteSpace c) s"

text \<open>\<open>s.replace(/[^a-zA-Z0-9]/g, '')\<close>: only ASCII letters and digits are kept.\<close>

definition removeNonAlnum :: "jsstring \<Rightarrow> jsstring" where
  "removeNonAlnum s = filter (\<lambda>c. isLowerAZ c \<or> isUpperAZ c \<or> isDigit09 c) s"

text \<open>\<open>s.trim()\<close>: white space is removed from both ends.\<close>

definition trim :: "jsstring \<Rightarrow> jsstring" where
  "trim s = rev (dropWhile isWhiteSpace (rev (dropWhile isWhiteSpace s)))"

text \<open>
  \<open>s.toUpperCase()\<close> applies the Unicode full upper case mapping, which is not
  length preserving: the upper case of U+00DF (sharp s) is \<open>'SS'\<close>.
  \<open>upperUnit\<close> is that mapping on U+0000..U+00FF and on every other code point whose
  upper case form contains an ASCII letter: the small ASCII and Latin-1 letters move down
  by \<open>0x20\<close>, and \<open>upperCaseSpecial\<close> lists the others (micro sign, sharp s, y with
  diaeresis, dotless i, U+0149, long s, U+01F0, U+1E96..U+1E9A and the ligatures
  U+FB00..U+FB06). The remaining code units are left as they are; Unicode maps them to
  code points outside ASCII again, so no test against \<open>[A-Z0-9]\<close> below depends on them.
\<close>

definition upperCaseSpecial :: "(nat \<times> jsstring) list" where
  "upperCaseSpecial =
     [(0xB5, [0x39C]), (0xDF, [0x53, 0x53]), (0xFF, [0x178]), (0x131, [0x49]),
      (0x149, [0x2BC, 0x4E]), (0x17F, [0x53]), (0x1F0, [0x4A, 0x30C]),
      (0x1E96, [0x48, 0x331]), (0x1E97, [0x54, 0x308]), (0x1E98, [0x57, 0x30A]),
      (0x1E99, [0x59, 0x30A]), (0x1E9A, [0x41, 0x2BE]), (0xFB00, [0x46, 0x46]),
      (0xFB01, [0x46, 0x49]), (0xFB02, [0x46, 0x4C]), (0xFB03, [0x46, 0x46, 0x49]),
      (0xFB04, [0x46, 0x46, 0x4C]), (0xFB05, [0x53, 0x54]), (0xFB06, [0x53, 0x54])]"

definition upperUnit :: "nat \<Rightarrow> jsstring" where
  "upperUnit c =
     (if 0x61 \<le> c \<and> c \<le> 0x7A \<or> 0xE0 \<le> c \<and> c \<le> 0xFE \<and> c \<noteq> 0xF7 then [c - 0x20]
      else case map_of upperCaseSpecial c of Some u \<Rightarrow> u | None \<Rightarrow> [c])"

definition toUpperCase :: "jsstring \<Rightarrow> jsstring" where
  "toUpperCase s = concat (map upperUnit s)"

text \<open>
  \<open>s.slice(a, b)\<close> and \<open>s.slice(a)\<close> for the non-negative constant arguments of the
  source: both ends are clamped to the length, and an empty range gives \<open>''\<close>.
\<close>

definition slice :: "nat \<Rightarrow> nat \<Rightarrow> jsstring \<Rightarrow> jsstring" where
  "slice a b s = take (b - a) (drop a s)"

definition sliceFrom :: "nat \<Rightarrow> jsstring \<Rightarrow> jsstring" where
  "sliceFrom a s = drop a s"

text \<open>\<open>n.toString()\<close> for a non-negative integer: its decimal digits.\<close>

fun numberToString :: "nat \<Rightarrow> jsstring" where
  "numberToString n =
     (if n < 10 then [0x30 + n] else numberToString (n div 10) @ [0x30 + n mod 10])"

declare numberToString.simps [simp del]

text \<open>
  \<open>BigInt(s)\<close> on a string (StringToBigInt): white space is trimmed; the empty string is
  \<open>0n\<close>; then either decimal digits with an optional sign, or binary, octal or hexadecimal
  digits after \<open>0b\<close>, \<open>0o\<close>, \<open>0x\<close>. Anything else throws a SyntaxError, the only exception
  that the functions of \<open>ibanUtils.ts\<close> could raise.
\<close>

datatype error = SyntaxError

definition digitOf :: "nat \<Rightarrow> nat \<Rightarrow> nat option" where
  "digitOf radix c =
     (let v = (if 0x30 \<le> c \<and> c \<le> 0x39 then Some (c - 0x30)
               else if 0x61 \<le> c \<and> c \<le> 0x66 then Some (c - 0x57)
               else if 0x41 \<le> c \<and> c \<le> 0x46 then Some (c - 0x37)
               else None)
      in case v of None \<Rightarrow> None | Some d \<Rightarrow> if d < radix then Some d else None)"

fun parseDigits :: "nat \<Rightarrow> int \<Rightarrow> jsstring \<Rightarrow> int option" where
  "parseDigits radix acc [] = Some acc"
| "parseDigits radix acc (c # cs) =
     (case digitOf radix c of
        None \<Rightarrow> None
      | Some d \<Rightarrow> parseDigits radix (acc * int radix + int d) cs)"

definition parseLiteral :: "nat \<Rightarrow> jsstring \<Rightarrow> error + int" where
  "parseLiteral radix ds =
     (if ds = [] then Inl SyntaxError
      else case parseDigits radix 0 ds of
             None \<Rightarrow> Inl SyntaxError
           | Some n \<Rightarrow> Inr n)"

definition BigInt :: "jsstring \<Rightarrow> error + int" where
  "BigInt s =
     (let t = trim s in
      if t = [] then Inr 0
      else if take 2 t = js ''0x'' \<or> take 2 t = js ''0X'' then parseLiteral 16 (drop 2 t)
      else if take 2 t = js ''0o'' \<or> take 2 t = js ''0O'' then parseLiteral 8 (drop 2 t)
      else if take 2 t = js ''0b'' \<or> take 2 t = js ''0B'' then parseLiteral 2 (drop 2 t)
      else if take 1 t = js ''+'' then parseLiteral 10 (drop 1 t)
      else if take 1 t = js ''-'' then
        (case parseLiteral 10 (drop 1 t) of Inl e \<Rightarrow> Inl e | Inr n \<Rightarrow> Inr (- n))
      else parseLiteral 10 t)"

text \<open>\<open>a % b\<close> on BigInt values: the remainder of the division truncated towards zero.\<close>

definition bigIntRem :: "int \<Rightarrow> int \<Rightarrow> int" where
  "bigIntRem a b = sgn a * (\<bar>a\<bar> mod \<bar>b\<bar>)"

section \<open>The functions of \<open>src/utils/ibanUtils.ts\<close>\<close>

text \<open>The two regular expression tests of the source.\<close>

definition matchesIbanFormat :: "jsstring \<Rightarrow> bool" where
  \<comment> \<open>\<open>/^[A-Z]{2}[0-9A-Z]{2,}$/.test(s)\<close>\<close>
  "matchesIbanFormat s \<longleftrightarrow>
     4 \<le> length s \<and> list_all isUpperAZ (take 2 s) \<and>
     list_all (\<lambda>c. isDigit09 c \<or> isUpperAZ c) (drop 2 s)"

definition startsWithCountryCode :: "jsstring \<Rightarrow> bool" where
  \<comment> \<open>\<open>/^[A-Z]{2}/.test(s)\<close>\<close>
  "startsWithCountryCode s \<longleftrightarrow> 2 \<le> length s \<and> list_all isUpperAZ (take 2 s)"

text \<open>
  \<open>formatIban\<close>: the input is cleaned of everything but ASCII letters and digits and put
  in upper case (the spec's \<open>normalize\<close>), then a space is put after every group of four
  characters that is followed by another character.
\<close>

definition normalize :: "jsstring \<Rightarrow> jsstring" where
  "normalize iban = toUpperCase (removeNonAlnum iban)"

fun groupsOfFour :: "jsstring \<Rightarrow> jsstring" where
  "groupsOfFour (a # b # c # d # e # rest) = a # b # c # d # 0x20 # groupsOfFour (e # rest)"
| "groupsOfFour s = s"

definition formatIban :: "jsstring \<Rightarrow> jsstring" where
  "formatIban iban = groupsOfFour (normalize iban)"

text \<open>
  \<open>validateIban\<close>. The letter expansion of the source is \<open>expandChar\<close>: a code unit in
  \<open>65..90\<close> becomes the decimal string of \<open>code - 55\<close>, any other is kept.
\<close>

definition expandChar :: "nat \<Rightarrow> jsstring" where
  "expandChar code = (if code \<ge> 65 \<and> code \<le> 90 then numberToString (code - 55) else [code])"

definition validateIban :: "jsstring \<Rightarrow> error + bool" where
  "validateIban iban =
     (if iban = [] then Inr False
      else
        let cleanedIban = toUpperCase (removeWhitespace iban) in
        if \<not> matchesIbanFormat cleanedIban then Inr False
        else if length cleanedIban < 15 \<or> length cleanedIban > 34 then Inr False
        else
          let rearranged = sliceFrom 4 cleanedIban @ slice 0 4 cleanedIban;
              numeric = concat (map expandChar rearranged)
          in case BigInt numeric of
               Inl e \<Rightarrow> Inl e
             | Inr n \<Rightarrow> Inr (bigIntRem n 97 = 1))"

text \<open>\<open>getCountryFromIban\<close>.\<close>

definition getCountryFromIban :: "jsstring \<Rightarrow> jsstring" where
  "getCountryFromIban iban =
     (if iban = [] \<or> length iban < 2 then []
      else slice 0 2 (toUpperCase (trim iban)))"

text \<open>\<open>getValidationMessage\<close>, with its result object as a record.\<close>

record validationResult =
  isValid :: bool
  message :: string

definition getValidationMessage :: "jsstring \<Rightarrow> error + validationResult" where
  "getValidationMessage iban =
     (if iban = [] then Inr \<lparr>isValid = False, message = ''Please enter an IBAN''\<rparr>
      else
        let cleanedIban = removeWhitespace iban in
        if length cleanedIban < 15 then
          Inr \<lparr>isValid = False, message = ''IBAN is too short''\<rparr>
        else if length cleanedIban > 34 then
          Inr \<lparr>isValid = False, message = ''IBAN is too long''\<rparr>
        else if \<not> startsWithCountryCode (toUpperCase cleanedIban) then
          Inr \<lparr>isValid = False,
               message = ''IBAN must start with a country code (2 letters)''\<rparr>
        else
          case validateIban cleanedIban of
            Inl e \<Rightarrow> Inl e
          | Inr v \<Rightarrow>
              Inr (if v then \<lparr>isValid = True, message = ''Valid IBAN''\<rparr>
                   else \<lparr>isValid = False, message = ''Invalid IBAN.''\<rparr>))"

text \<open>
  \<open>extractBankAccountInfo\<close>. Its result object has the two fields of a validation result
  and four more, so the record extends \<open>validationResult\<close>. The \<open>switch\<close> assigns the three
  local variables; \<open>bankFields\<close> returns them as a triple (bank code, branch code, account
  number), each \<open>''\<close> where the source leaves its initial value.
\<close>

record bankAccountInfo = validationResult +
  countryCode :: jsstring
  bankCode :: jsstring
  branchCode :: jsstring
  accountNumber :: jsstring

definition bankFields :: "jsstring \<Rightarrow> jsstring \<Rightarrow> jsstring \<times> jsstring \<times> jsstring" where
  "bankFields country cleanedIban =
     (if country = js ''DE'' then
        (if length cleanedIban = 22
         then (slice 4 12 cleanedIban, [], slice 12 22 cleanedIban)
         else ([], [], []))
      else if country = js ''FR'' then
        (if length cleanedIban = 27
         then (slice 4 9 cleanedIban, slice 9 14 cleanedIban, slice 14 25 cleanedIban)
         else ([], [], []))
      else if country = js ''GB'' then
        (if length cleanedIban = 22
         then (slice 4 8 cleanedIban, slice 8 14 cleanedIban, slice 14 22 cleanedIban)
         else ([], [], []))
      else
        (if length cleanedIban \<ge> 15
         then (slice 4 8 cleanedIban, [], sliceFrom 8 cleanedIban)
         else ([], [], [])))"

definition extractBankAccountInfo :: "jsstring \<Rightarrow> error + bankAccountInfo" where
  "extractBankAccountInfo iban =
     (let cleanedIban = toUpperCase (removeWhitespace iban);
          country = getCountryFromIban cleanedIban
      in case validateIban cleanedIban of
           Inl e \<Rightarrow> Inl e
         | Inr valid \<Rightarrow>
             if \<not> valid then
               Inr \<lparr>isValid = False,
                    message = ''Invalid IBAN. Cannot extract account information.'',
                    countryCode = country, bankCode = [], branchCode = [],
                    accountNumber = []\<rparr>
             else
               (case bankFields country cleanedIban of
                  (bank, branch, account) \<Rightarrow>
                    Inr \<lparr>isValid = True,
                         message =
                           (if bank \<noteq> [] then
                              ''Successfully extracted bank account information''
                            else
                              ''Partial information extracted due to unknown country format''),
                         countryCode = country, bankCode = bank, branchCode = branch,
                         accountNumber = account\<rparr>))"

section \<open>The checksum of the specification\<close>

text \<open>
  A normalized IBAN consists of characters \<open>[A-Z0-9]\<close> only.
\<close>

definition isUpperAlnum :: "nat \<Rightarrow> bool" where
  "isUpperAlnum c \<longleftrightarrow> isDigit09 c \<or> isUpperAZ c"

text \<open>
  The two guards that \<open>validateIban\<close> puts on the cleaned string before it computes the
  checksum: the pattern and the length bounds.
\<close>

definition structureOk :: "jsstring \<Rightarrow> bool" where
  "structureOk c \<longleftrightarrow> matchesIbanFormat c \<and> 15 \<le> length c \<and> length c \<le> 34"

text \<open>
  The checksum as the specification words it (ISO 7064 MOD 97-10), independent of the
  source: move the first four characters to the end; replace each letter by the two
  decimal digits of its code minus 55 (\<open>A\<close> gives 10, \<open>Z\<close> gives 35) and keep the digits;
  read the result as a decimal numeral, an unbounded integer; the checksum holds when
  that integer is 1 modulo 97.
\<close>

definition specLetter :: "nat \<Rightarrow> jsstring" where
  "specLetter c =
     (if isUpperAZ c then [0x30 + (c - 55) div 10, 0x30 + (c - 55) mod 10] else [c])"

definition specNumeral :: "jsstring \<Rightarrow> jsstring" where
  "specNumeral s = concat (map specLetter (drop 4 s @ take 4 s))"

definition decimalValue :: "jsstring \<Rightarrow> int" where
  "decimalValue ds = foldl (\<lambda>a d. 10 * a + int (d - 0x30)) 0 ds"

definition checksumOk :: "jsstring \<Rightarrow> bool" where
  "checksumOk s \<longleftrightarrow> decimalValue (specNumeral s) mod 97 = 1"

text \<open>
  The code units that \<open>upperUnit\<close> produces from a code unit it changes: capital ASCII
  and Latin-1 letters, capital mu, capital y with diaeresis, and six modifier and
  combining marks. None of them is white space and \<open>upperUnit\<close> leaves each as it is.
\<close>

definition upperImage :: "nat \<Rightarrow> bool" where
  "upperImage d \<longleftrightarrow>
     0x41 \<le> d \<and> d \<le> 0x5A \<or> 0xC0 \<le> d \<and> d \<le> 0xDE \<and> d \<noteq> 0xD7 \<or>
     d \<in> set [0x39C, 0x178, 0x2BC, 0x30C, 0x331, 0x308, 0x30A, 0x2BE]"

section \<open>The upper case table\<close>

lemma special_keys_not_ascii: "list_all (\<lambda>(k, u). 0x80 \<le> k) upperCaseSpecial"
  by (simp add: upperCaseSpecial_def)

lemma special_keys_not_image: "list_all (\<lambda>(k, u). \<not> upperImage k) upperCaseSpecial"
  by (simp add: upperCaseSpecial_def upperImage_def)

lemma special_values_image:
  "list_all (\<lambda>(k, u). u \<noteq> [] \<and> list_all upperImage u) upperCaseSpecial"
  by (simp add: upperCaseSpecial_def upperImage_def)

lemma upperUnit_ascii:
  assumes "c < 0x80"
  shows "upperUnit c = (if 0x61 \<le> c \<and> c \<le> 0x7A then [c - 0x20] else [c])"
proof -
  have "map_of upperCaseSpecial c = None"
  proof (rule ccontr)
    assume "map_of upperCaseSpecial c \<noteq> None"
    then obtain u where "(c, u) \<in> set upperCaseSpecial"
      by (auto dest: map_of_SomeD)
    with special_keys_not_ascii have "0x80 \<le> c"
      by (auto simp: list_all_iff)
    with assms show False by simp
  qed
  with assms show ?thesis by (simp add: upperUnit_def)
qed

section \<open>Evaluation on concrete inputs\<close>

text \<open>
  The defining equations, for evaluating the functions on a literal by rewriting; for
  \<open>upperUnit\<close> the equation on ASCII, which needs no table. The equation of
  \<open>numberToString\<close> is recursive without a guard, so this collection is only for closed
  terms.
\<close>

lemmas js_eval =
  js_def isWhiteSpace_def isUpperAZ_def isLowerAZ_def isDigit09_def removeWhitespace_def
  removeNonAlnum_def trim_def upperUnit_ascii toUpperCase_def slice_def sliceFrom_def
  numberToString.simps digitOf_def parseLiteral_def BigInt_def bigIntRem_def
  matchesIbanFormat_def startsWithCountryCode_def normalize_def expandChar_def
  validateIban_def getCountryFromIban_def getValidationMessage_def bankFields_def
  extractBankAccountInfo_def Let_def

lemmas spec_eval =
  isUpperAlnum_def structureOk_def specLetter_def specNumeral_def decimalValue_def
  checksumOk_def

section \<open>Upper case and white space\<close>

lemma upperUnit_upper_alnum:
  assumes "isUpperAlnum c"
  shows "upperUnit c = [c]"
proof -
  from assms have "c \<le> 0x5A"
    by (auto simp: isUpperAlnum_def isDigit09_def isUpperAZ_def)
  then show ?thesis by (simp add: upperUnit_ascii)
qed

lemma toUpperCase_upper_alnum: "list_all isUpperAlnum s \<Longrightarrow> toUpperCase s = s"
  by (induction s) (simp_all add: toUpperCase_def upperUnit_upper_alnum)

lemma upper_alnum_not_ws: "isUpperAlnum c \<Longrightarrow> \<not> isWhiteSpace c"
  by (auto simp: isUpperAlnum_def isWhiteSpace_def isDigit09_def isUpperAZ_def)

lemma removeWhitespace_no_ws_id:
  "list_all (\<lambda>c. \<not> isWhiteSpace c) s \<Longrightarrow> removeWhitespace s = s"
  by (induction s) (simp_all add: removeWhitespace_def)

lemma removeWhitespace_upper_alnum: "list_all isUpperAlnum s \<Longrightarrow> removeWhitespace s = s"
  by (rule removeWhitespace_no_ws_id) (auto simp: list_all_iff upper_alnum_not_ws)

lemma removeWhitespace_idem: "removeWhitespace (removeWhitespace x) = removeWhitespace x"
  by (simp add: removeWhitespace_def)

lemma removeWhitespace_no_ws: "list_all (\<lambda>c. \<not> isWhiteSpace c) (removeWhitespace x)"
  by (simp add: removeWhitespace_def list_all_iff)

lemma trim_no_ws_ends:
  assumes "s \<noteq> []" "\<not> isWhiteSpace (hd s)" "\<not> isWhiteSpace (last s)"
  shows "trim s = s"
proof -
  have front: "dropWhile isWhiteSpace s = s"
    using assms by (simp add: dropWhile_eq_self_iff)
  have rear: "dropWhile isWhiteSpace (rev s) = rev s"
    using assms by (simp add: dropWhile_eq_self_iff hd_rev)
  show ?thesis by (simp add: trim_def front rear)
qed

lemma trim_no_ws: "list_all (\<lambda>c. \<not> isWhiteSpace c) s \<Longrightarrow> trim s = s"
proof (cases "s = []")
  case True
  then show ?thesis by (simp add: trim_def)
next
  case False
  assume "list_all (\<lambda>c. \<not> isWhiteSpace c) s"
  with False have "\<not> isWhiteSpace (hd s)" "\<not> isWhiteSpace (last s)"
    by (simp_all add: list_all_iff)
  with False show ?thesis by (rule trim_no_ws_ends)
qed

lemma upperUnit_cases:
  "upperUnit c = [c] \<or> upperUnit c \<noteq> [] \<and> list_all upperImage (upperUnit c)"
proof (cases "0x61 \<le> c \<and> c \<le> 0x7A \<or> 0xE0 \<le> c \<and> c \<le> 0xFE \<and> c \<noteq> 0xF7")
  case True
  then have "upperImage (c - 0x20)"
    unfolding upperImage_def by arith
  moreover from True have "upperUnit c = [c - 0x20]"
    unfolding upperUnit_def by (rule if_P)
  ultimately show ?thesis by simp
next
  case False
  then have lookup:
    "upperUnit c = (case map_of upperCaseSpecial c of Some u \<Rightarrow> u | None \<Rightarrow> [c])"
    unfolding upperUnit_def by (rule if_not_P)
  show ?thesis
  proof (cases "map_of upperCaseSpecial c")
    case None
    with lookup show ?thesis by simp
  next
    case (Some u)
    then have "(c, u) \<in> set upperCaseSpecial"
      by (rule map_of_SomeD)
    with special_values_image have "u \<noteq> [] \<and> list_all upperImage u"
      by (auto simp: list_all_iff)
    with lookup Some show ?thesis by simp
  qed
qed

lemma upperImage_fixed:
  assumes "upperImage d"
  shows "upperUnit d = [d]"
proof -
  have shifted: "\<not> (0x61 \<le> d \<and> d \<le> 0x7A \<or> 0xE0 \<le> d \<and> d \<le> 0xFE \<and> d \<noteq> 0xF7)"
    using assms by (auto simp: upperImage_def)
  have "map_of upperCaseSpecial d = None"
  proof (rule ccontr)
    assume "map_of upperCaseSpecial d \<noteq> None"
    then obtain u where "(d, u) \<in> set upperCaseSpecial"
      by (auto dest: map_of_SomeD)
    with special_keys_not_image have "\<not> upperImage d"
      by (auto simp: list_all_iff)
    with assms show False by simp
  qed
  moreover from shifted
  have "upperUnit d = (case map_of upperCaseSpecial d of Some u \<Rightarrow> u | None \<Rightarrow> [d])"
    unfolding upperUnit_def by (rule if_not_P)
  ultimately show ?thesis by simp
qed

lemma upperImage_no_ws: "upperImage d \<Longrightarrow> \<not> isWhiteSpace d"
  by (auto simp: upperImage_def isWhiteSpace_def)

lemma upperUnit_fixed: "d \<in> set (upperUnit c) \<Longrightarrow> upperUnit d = [d]"
  using upperUnit_cases [of c] by (auto simp: list_all_iff upperImage_fixed)

lemma upperUnit_no_ws:
  "\<not> isWhiteSpace c \<Longrightarrow> d \<in> set (upperUnit c) \<Longrightarrow> \<not> isWhiteSpace d"
  using upperUnit_cases [of c] by (auto simp: list_all_iff upperImage_no_ws)

lemma upperUnit_nonempty: "upperUnit c \<noteq> []"
  using upperUnit_cases [of c] by auto

lemma toUpperCase_idem: "toUpperCase (toUpperCase s) = toUpperCase s"
proof -
  have unchanged: "\<forall>d \<in> set t. upperUnit d = [d] \<Longrightarrow> toUpperCase t = t" for t
    by (induction t) (simp_all add: toUpperCase_def)
  have "\<forall>d \<in> set (toUpperCase s). upperUnit d = [d]"
    by (auto simp: toUpperCase_def dest: upperUnit_fixed)
  then show ?thesis by (rule unchanged)
qed

lemma toUpperCase_no_ws:
  "list_all (\<lambda>c. \<not> isWhiteSpace c) s \<Longrightarrow>
   list_all (\<lambda>c. \<not> isWhiteSpace c) (toUpperCase s)"
  by (auto simp: toUpperCase_def list_all_iff dest: upperUnit_no_ws)

lemma cleaned_no_ws:
  "list_all (\<lambda>c. \<not> isWhiteSpace c) (toUpperCase (removeWhitespace x))"
  by (simp add: toUpperCase_no_ws removeWhitespace_no_ws)


lemma length_toUpperCase: "length s \<le> length (toUpperCase s)"
proof (induction s)
  case Nil
  show ?case by (simp add: toUpperCase_def)
next
  case (Cons a s)
  have "1 \<le> length (upperUnit a)"
    using upperUnit_nonempty [of a] by (simp add: Suc_le_eq)
  with Cons show ?case by (simp add: toUpperCase_def)
qed

section \<open>The numeral handed to BigInt\<close>

lemma numberToString_two_digits:
  assumes "10 \<le> n" "n < 100"
  shows "numberToString n = [0x30 + n div 10, 0x30 + n mod 10]"
proof -
  from assms have "n div 10 < 10" by arith
  with assms show ?thesis
    by (simp add: numberToString.simps [of n] numberToString.simps [of "n div 10"])
qed

lemma expandChar_specLetter: "expandChar c = specLetter c"
  by (auto simp: expandChar_def specLetter_def isUpperAZ_def numberToString_two_digits)

lemma specLetter_digits: "isUpperAlnum c \<Longrightarrow> list_all isDigit09 (specLetter c)"
  by (auto simp: specLetter_def isUpperAlnum_def isDigit09_def isUpperAZ_def)

lemma specLetter_nonempty: "specLetter c \<noteq> []"
  by (simp add: specLetter_def)

lemma numeric_digits:
  "list_all isUpperAlnum s \<Longrightarrow> list_all isDigit09 (concat (map expandChar s))"
  by (induction s) (simp_all add: expandChar_specLetter specLetter_digits)

lemma numeric_nonempty: "s \<noteq> [] \<Longrightarrow> concat (map expandChar s) \<noteq> []"
  by (cases s) (simp_all add: expandChar_specLetter specLetter_nonempty)

lemma parseDigits_decimal:
  "list_all isDigit09 ds \<Longrightarrow>
   parseDigits 10 acc ds = Some (foldl (\<lambda>a d. 10 * a + int (d - 0x30)) acc ds)"
  by (induction ds arbitrary: acc) (auto simp: digitOf_def isDigit09_def mult.commute)

lemma BigInt_digits:
  assumes "list_all isDigit09 ds" "ds \<noteq> []"
  shows "BigInt ds = Inr (decimalValue ds)"
proof -
  obtain d rest where ds: "ds = d # rest"
    using assms(2) by (cases ds) auto
  have first: "isDigit09 d"
    using assms(1) ds by simp
  have final: "isDigit09 (last ds)"
    using assms by (induction ds) auto
  have t: "trim ds = ds"
    using assms(2) first final ds
    by (intro trim_no_ws_ends) (auto simp: isDigit09_def isWhiteSpace_def)
  have prefix: "take 2 ds \<noteq> [0x30, c]" if "\<not> isDigit09 c" for c
    using assms(1) ds that by (cases rest) auto
  have sign: "take 1 ds \<noteq> [c]" if "\<not> isDigit09 c" for c
    using first ds that by auto
  show ?thesis
    using assms(2) prefix [of "0x78"] prefix [of "0x58"] prefix [of "0x6F"] prefix [of "0x4F"]
      prefix [of "0x62"] prefix [of "0x42"] sign [of "0x2B"] sign [of "0x2D"]
    by (simp add: BigInt_def t js_def isDigit09_def parseLiteral_def
        parseDigits_decimal [OF assms(1)] decimalValue_def)
qed

lemma decimalValue_nonneg: "0 \<le> decimalValue ds"
proof -
  have "0 \<le> acc \<Longrightarrow> 0 \<le> foldl (\<lambda>a d. 10 * a + int (d - 0x30)) acc ds" for acc
    by (induction ds arbitrary: acc) simp_all
  then show ?thesis by (simp add: decimalValue_def)
qed

lemma bigIntRem_nonneg: "0 \<le> a \<Longrightarrow> bigIntRem a 97 = a mod 97"
  by (cases "a = 0") (simp_all add: bigIntRem_def)

lemma matchesIbanFormat_alnum:
  assumes "matchesIbanFormat s"
  shows "list_all isUpperAlnum s"
proof -
  have "list_all isUpperAlnum (take 2 s @ drop 2 s)"
    using assms unfolding matchesIbanFormat_def list_all_append
    by (auto simp: isUpperAlnum_def list_all_iff)
  then show ?thesis by simp
qed

lemma rearranged_alnum:
  assumes "list_all isUpperAlnum c"
  shows "list_all isUpperAlnum (sliceFrom 4 c @ slice 0 4 c)"
  using assms
  by (auto simp: sliceFrom_def slice_def list_all_iff dest: in_set_dropD in_set_takeD)

lemma numeric_parses:
  assumes "matchesIbanFormat c"
  shows "BigInt (concat (map expandChar (sliceFrom 4 c @ slice 0 4 c))) =
         Inr (decimalValue (specNumeral c))"
proof -
  have alnum: "list_all isUpperAlnum (sliceFrom 4 c @ slice 0 4 c)"
    using assms by (intro rearranged_alnum matchesIbanFormat_alnum)
  have "c \<noteq> []"
    using assms by (auto simp: matchesIbanFormat_def)
  then have nonempty: "sliceFrom 4 c @ slice 0 4 c \<noteq> []"
    by (simp add: sliceFrom_def slice_def)
  have "concat (map expandChar (sliceFrom 4 c @ slice 0 4 c)) = specNumeral c"
    by (simp add: specNumeral_def sliceFrom_def slice_def expandChar_specLetter [abs_def])
  with BigInt_digits [OF numeric_digits [OF alnum] numeric_nonempty [OF nonempty]]
  show ?thesis by simp
qed

section \<open>What the validation functions compute\<close>

lemma structureOk_nonempty: "structureOk c \<Longrightarrow> c \<noteq> []"
  by (auto simp: structureOk_def)

lemma validateIban_eq:
  "validateIban x =
     Inr (structureOk (toUpperCase (removeWhitespace x)) \<and>
          checksumOk (toUpperCase (removeWhitespace x)))"
proof -
  define c where "c = toUpperCase (removeWhitespace x)"
  show ?thesis
  proof (cases "structureOk c")
    case False
    then show ?thesis
      by (auto simp: validateIban_def c_def Let_def structureOk_def)
  next
    case True
    then have "c \<noteq> []" by (rule structureOk_nonempty)
    then have x: "x \<noteq> []"
      by (auto simp: c_def toUpperCase_def removeWhitespace_def)
    have m: "matchesIbanFormat c"
      using True by (simp add: structureOk_def)
    have len: "\<not> (length c < 15 \<or> 34 < length c)"
      using True by (auto simp: structureOk_def)
    show ?thesis
      unfolding validateIban_def c_def [symmetric] Let_def numeric_parses [OF m]
      using x m len True
      by (simp add: bigIntRem_nonneg decimalValue_nonneg checksumOk_def)
  qed
qed


lemma validateIban_removeWhitespace: "validateIban (removeWhitespace x) = validateIban x"
  by (simp add: validateIban_eq removeWhitespace_idem)

lemma getValidationMessage_eq:
  "getValidationMessage x = Inr
     (if x = [] then \<lparr>isValid = False, message = ''Please enter an IBAN''\<rparr>
      else if length (removeWhitespace x) < 15 then
        \<lparr>isValid = False, message = ''IBAN is too short''\<rparr>
      else if length (removeWhitespace x) > 34 then
        \<lparr>isValid = False, message = ''IBAN is too long''\<rparr>
      else if \<not> startsWithCountryCode (toUpperCase (removeWhitespace x)) then
        \<lparr>isValid = False, message = ''IBAN must start with a country code (2 letters)''\<rparr>
      else if structureOk (toUpperCase (removeWhitespace x)) \<and>
              checksumOk (toUpperCase (removeWhitespace x)) then
        \<lparr>isValid = True, message = ''Valid IBAN''\<rparr>
      else \<lparr>isValid = False, message = ''Invalid IBAN.''\<rparr>)"
  by (simp add: getValidationMessage_def Let_def validateIban_eq removeWhitespace_idem)

section \<open>Cleaning twice, and inputs in ASCII\<close>

lemma removeWhitespace_Nil: "removeWhitespace [] = []"
  by (simp add: removeWhitespace_def)


lemma length_toUpperCase_ascii:
  "list_all (\<lambda>c. c < 0x80) s \<Longrightarrow> length (toUpperCase s) = length s"
  by (induction s) (simp_all add: toUpperCase_def upperUnit_ascii)

lemma removeWhitespace_ascii:
  "list_all (\<lambda>c. c < 0x80) x \<Longrightarrow> list_all (\<lambda>c. c < 0x80) (removeWhitespace x)"
  by (simp add: removeWhitespace_def list_all_iff)


lemma getCountryFromIban_cleaned:
  "getCountryFromIban (toUpperCase (removeWhitespace x)) =
     (if length (toUpperCase (removeWhitespace x)) < 2 then []
      else slice 0 2 (toUpperCase (removeWhitespace x)))"
  by (auto simp: getCountryFromIban_def trim_no_ws cleaned_no_ws toUpperCase_idem)

lemma valid_normalized:
  assumes "list_all isUpperAlnum s" "validateIban s = Inr True"
  shows "toUpperCase (removeWhitespace s) = s" and "15 \<le> length s" and "length s \<le> 34"
proof -
  show clean: "toUpperCase (removeWhitespace s) = s"
    using assms(1) by (simp add: removeWhitespace_upper_alnum toUpperCase_upper_alnum)
  have "structureOk s"
    using assms(2) by (simp add: validateIban_eq clean)
  then show "15 \<le> length s" and "length s \<le> 34"
    by (simp_all add: structureOk_def)
qed

section \<open>The checksum engine\<close>

text \<open>
  C1. For every normalized string \<open>s\<close> over \<open>[A-Z0-9]\<close> of length 15 to 34 that starts
  with two letters, \<open>validateIban\<close> returns true exactly when the decimal numeral
  obtained by moving the first four characters to the end and replacing each letter by
  the decimal string of its code minus 55 is congruent to 1 modulo 97, as an unbounded
  integer; and it returns, it does not throw.
\<close>

theorem checksum_mod97:
  assumes "list_all isUpperAlnum s" and "15 \<le> length s" and "length s \<le> 34"
    and "list_all isUpperAZ (take 2 s)"
  shows "validateIban s = Inr (decimalValue (specNumeral s) mod 97 = 1)"
proof -
  have clean: "toUpperCase (removeWhitespace s) = s"
    using assms(1) by (simp add: removeWhitespace_upper_alnum toUpperCase_upper_alnum)
  have "list_all isUpperAlnum (drop 2 s)"
    using assms(1) by (auto simp: list_all_iff dest: in_set_dropD)
  then have "matchesIbanFormat s"
    using assms(2,4) by (simp add: matchesIbanFormat_def isUpperAlnum_def [abs_def])
  then have "structureOk s"
    using assms(2,3) by (simp add: structureOk_def)
  then show ?thesis
    by (simp add: validateIban_eq clean checksumOk_def)
qed

theorem checksum_mod97_witness:
  "list_all isUpperAlnum (js ''GB29NWBK60161331926819'') \<and>
   15 \<le> length (js ''GB29NWBK60161331926819'') \<and>
   length (js ''GB29NWBK60161331926819'') \<le> 34 \<and>
   list_all isUpperAZ (take 2 (js ''GB29NWBK60161331926819'')) \<and>
   specNumeral (js ''GB29NWBK60161331926819'') = js ''2332112060161331926819161129'' \<and>
   validateIban (js ''GB29NWBK60161331926819'') =
     Inr (decimalValue (specNumeral (js ''GB29NWBK60161331926819'')) mod 97 = 1)"
proof -
  have a: "list_all isUpperAlnum (js ''GB29NWBK60161331926819'')"
    by (simp add: js_eval spec_eval)
  have b: "15 \<le> length (js ''GB29NWBK60161331926819'')"
    by (simp add: js_def)
  have c: "length (js ''GB29NWBK60161331926819'') \<le> 34"
    by (simp add: js_def)
  have d: "list_all isUpperAZ (take 2 (js ''GB29NWBK60161331926819''))"
    by (simp add: js_eval)
  have e: "specNumeral (js ''GB29NWBK60161331926819'') = js ''2332112060161331926819161129''"
    by (simp add: js_eval spec_eval)
  show ?thesis
    using a b c d e checksum_mod97 [OF a b c d] by simp
qed

section \<open>The canonical examples\<close>

text \<open>
  C2. The message-producing validation reports each of the three canonical examples
  \<open>DE89370400440532013000\<close>, \<open>FR1420041010050500013M02606\<close> and
  \<open>GB29NWBK60161331926819\<close> as valid: the result is the object with \<open>isValid\<close> true and
  the message \<open>Valid IBAN\<close>.
\<close>

theorem canonical_examples_valid:
  "getValidationMessage (js ''DE89370400440532013000'') =
     Inr \<lparr>isValid = True, message = ''Valid IBAN''\<rparr> \<and>
   getValidationMessage (js ''FR1420041010050500013M02606'') =
     Inr \<lparr>isValid = True, message = ''Valid IBAN''\<rparr> \<and>
   getValidationMessage (js ''GB29NWBK60161331926819'') =
     Inr \<lparr>isValid = True, message = ''Valid IBAN''\<rparr>"
  by (simp add: js_eval)

text \<open>
  C7. Decomposing the German example gives bank code \<open>37040044\<close>, account number
  \<open>0532013000\<close> and an empty branch code; decomposing the British example gives bank code
  \<open>NWBK\<close>, branch code \<open>601613\<close> and account number \<open>31926819\<close>.
\<close>

theorem canonical_examples_decomposed:
  "extractBankAccountInfo (js ''DE89370400440532013000'') =
     Inr \<lparr>isValid = True,
          message = ''Successfully extracted bank account information'',
          countryCode = js ''DE'', bankCode = js ''37040044'', branchCode = [],
          accountNumber = js ''0532013000''\<rparr> \<and>
   extractBankAccountInfo (js ''GB29NWBK60161331926819'') =
     Inr \<lparr>isValid = True,
          message = ''Successfully extracted bank account information'',
          countryCode = js ''GB'', bankCode = js ''NWBK'', branchCode = js ''601613'',
          accountNumber = js ''31926819''\<rparr>"
  by (simp add: js_eval)

section \<open>Validation and normalization\<close>




section \<open>The order of the validation messages\<close>

text \<open>
  C4 claims that the reason is the first failing rule among: normalized string empty,
  shorter than 15, longer than 34, not matching \<open>^[A-Z]{2}[0-9A-Z]{2,}$\<close>; so that an
  input of white space only is reported as empty. The source tests the raw input for
  emptiness, measures the input with white space removed, and has a message of its own
  only for the two leading letters.

  C4, as amended. For every raw input \<open>x\<close>, with \<open>w\<close> the input without its white
  space, \<open>getValidationMessage\<close> returns the result of the first rule that applies:
  \<open>x\<close> itself is empty: \<open>Please enter an IBAN\<close>; \<open>w\<close> is shorter than 15:
  \<open>IBAN is too short\<close> (so also for a non-empty input of white space only); \<open>w\<close> is
  longer than 34: \<open>IBAN is too long\<close>; the upper case of \<open>w\<close> does not start with two
  letters \<open>A-Z\<close>: \<open>IBAN must start with a country code (2 letters)\<close>; otherwise
  \<open>Valid IBAN\<close> when \<open>validateIban\<close> accepts the input and \<open>Invalid IBAN.\<close> when it does
  not, which covers a failure of the rest of the pattern as well as of the checksum.
\<close>

theorem validation_message_order:
  "(x = [] \<longrightarrow>
      getValidationMessage x = Inr \<lparr>isValid = False, message = ''Please enter an IBAN''\<rparr>) \<and>
   (x \<noteq> [] \<and> length (removeWhitespace x) < 15 \<longrightarrow>
      getValidationMessage x = Inr \<lparr>isValid = False, message = ''IBAN is too short''\<rparr>) \<and>
   (34 < length (removeWhitespace x) \<longrightarrow>
      getValidationMessage x = Inr \<lparr>isValid = False, message = ''IBAN is too long''\<rparr>) \<and>
   (15 \<le> length (removeWhitespace x) \<and> length (removeWhitespace x) \<le> 34 \<and>
    \<not> startsWithCountryCode (toUpperCase (removeWhitespace x)) \<longrightarrow>
      getValidationMessage x =
        Inr \<lparr>isValid = False,
             message = ''IBAN must start with a country code (2 letters)''\<rparr>) \<and>
   (15 \<le> length (removeWhitespace x) \<and> length (removeWhitespace x) \<le> 34 \<and>
    startsWithCountryCode (toUpperCase (removeWhitespace x)) \<longrightarrow>
      getValidationMessage x =
        Inr (if validateIban x = Inr True
             then \<lparr>isValid = True, message = ''Valid IBAN''\<rparr>
             else \<lparr>isValid = False, message = ''Invalid IBAN.''\<rparr>))"
proof -
  have "x \<noteq> []" if "15 \<le> length (removeWhitespace x)"
    using that by (auto simp: removeWhitespace_Nil)
  then show ?thesis
    by (auto simp: getValidationMessage_eq validateIban_eq)
qed

theorem validation_message_order_witness:
  "getValidationMessage [] = Inr \<lparr>isValid = False, message = ''Please enter an IBAN''\<rparr> \<and>
   getValidationMessage [0x20, 0x9, 0xA0] =
     Inr \<lparr>isValid = False, message = ''IBAN is too short''\<rparr> \<and>
   getValidationMessage (js ''GB29 NWBK 6016 1331 9268 1900 0000 0000 0000'') =
     Inr \<lparr>isValid = False, message = ''IBAN is too long''\<rparr> \<and>
   getValidationMessage (js ''4111 1111 1111 1111'') =
     Inr \<lparr>isValid = False, message = ''IBAN must start with a country code (2 letters)''\<rparr> \<and>
   getValidationMessage (js ''GB29 NWBK 6016 1331 9268 19'') =
     Inr \<lparr>isValid = True, message = ''Valid IBAN''\<rparr> \<and>
   getValidationMessage (js ''GB29 NWBK 6016 1331 9268 1?'') =
     Inr \<lparr>isValid = False, message = ''Invalid IBAN.''\<rparr>"
proof -
  have empty: "getValidationMessage [] =
      Inr \<lparr>isValid = False, message = ''Please enter an IBAN''\<rparr>"
    using validation_message_order [of "[]"] by simp
  have "length (removeWhitespace [0x20, 0x9, 0xA0]) < 15"
    by (simp add: removeWhitespace_def isWhiteSpace_def)
  then have short: "getValidationMessage [0x20, 0x9, 0xA0] =
      Inr \<lparr>isValid = False, message = ''IBAN is too short''\<rparr>"
    using validation_message_order [of "[0x20, 0x9, 0xA0]"] by simp
  have "removeWhitespace (js ''GB29 NWBK 6016 1331 9268 1900 0000 0000 0000'') =
      js ''GB29NWBK6016133192681900000000000000''"
    by (simp add: js_def removeWhitespace_def isWhiteSpace_def)
  then have "34 < length (removeWhitespace (js ''GB29 NWBK 6016 1331 9268 1900 0000 0000 0000''))"
    by (simp add: js_def)
  then have long: "getValidationMessage (js ''GB29 NWBK 6016 1331 9268 1900 0000 0000 0000'') =
      Inr \<lparr>isValid = False, message = ''IBAN is too long''\<rparr>"
    using validation_message_order [of "js ''GB29 NWBK 6016 1331 9268 1900 0000 0000 0000''"]
    by simp
  have card: "removeWhitespace (js ''4111 1111 1111 1111'') = js ''4111111111111111''"
    by (simp add: js_def removeWhitespace_def isWhiteSpace_def)
  have "\<not> startsWithCountryCode (toUpperCase (js ''4111111111111111''))"
    by (simp add: js_eval)
  then have format: "getValidationMessage (js ''4111 1111 1111 1111'') =
      Inr \<lparr>isValid = False,
           message = ''IBAN must start with a country code (2 letters)''\<rparr>"
    using validation_message_order [of "js ''4111 1111 1111 1111''"]
    by (simp add: card) (simp add: js_def)
  have good: "removeWhitespace (js ''GB29 NWBK 6016 1331 9268 19'') =
      js ''GB29NWBK60161331926819''"
    by (simp add: js_def removeWhitespace_def isWhiteSpace_def)
  have "startsWithCountryCode (toUpperCase (js ''GB29NWBK60161331926819''))"
    by (simp add: js_eval)
  moreover have "validateIban (js ''GB29 NWBK 6016 1331 9268 19'') = Inr True"
    by (simp add: js_eval)
  ultimately have valid: "getValidationMessage (js ''GB29 NWBK 6016 1331 9268 19'') =
      Inr \<lparr>isValid = True, message = ''Valid IBAN''\<rparr>"
    using validation_message_order [of "js ''GB29 NWBK 6016 1331 9268 19''"]
    by (simp add: good) (simp add: js_def)
  have bad: "removeWhitespace (js ''GB29 NWBK 6016 1331 9268 1?'') =
      js ''GB29NWBK6016133192681?''"
    by (simp add: js_def removeWhitespace_def isWhiteSpace_def)
  have "startsWithCountryCode (toUpperCase (js ''GB29NWBK6016133192681?''))"
    by (simp add: js_eval)
  moreover have "validateIban (js ''GB29 NWBK 6016 1331 9268 1?'') = Inr False"
    by (simp add: js_eval)
  ultimately have invalid: "getValidationMessage (js ''GB29 NWBK 6016 1331 9268 1?'') =
      Inr \<lparr>isValid = False, message = ''Invalid IBAN.''\<rparr>"
    using validation_message_order [of "js ''GB29 NWBK 6016 1331 9268 1?''"]
    by (simp add: bad) (simp add: js_def)
  from empty short long format valid invalid show ?thesis
    by (intro conjI)
qed

text \<open>
  Three spaces normalize to the empty string and are reported as too short.
\<close>

theorem whitespace_only_counterexample:
  "normalize (js ''   '') = [] \<and>
   getValidationMessage (js ''   '') =
     Inr \<lparr>isValid = False, message = ''IBAN is too short''\<rparr>"
  by (simp add: js_eval)

section \<open>Decomposition\<close>




text \<open>
  C6 claims that a valid normalized IBAN whose country has no layout, or whose length
  is not its country's, gets the generic fields (bank code \<open>s[4:8]\<close>, account number
  \<open>s[8:]\<close>) and the status Partial. In the source the generic fields are the
  \<open>default\<close> branch of the \<open>switch\<close>, so only countries other than DE, FR and GB get
  them; and the message depends on the bank code alone.

  C6, as amended. For every valid normalized IBAN \<open>s\<close>: when its country code is none
  of DE, FR, GB, the result has bank code \<open>s[4:8]\<close>, empty branch code and account
  number \<open>s[8:]\<close>, both non-empty, and the message
  \<open>Successfully extracted bank account information\<close>; when its country code is DE, FR or
  GB and its length is not 22, 27 or 22 respectively, the three fields are empty and
  the message is \<open>Partial information extracted due to unknown country format\<close>. In both
  cases \<open>isValid\<close> is true and nothing is thrown.
\<close>

theorem decompose_fallback:
  assumes "list_all isUpperAlnum s" and "validateIban s = Inr True"
  shows
    "(slice 0 2 s \<noteq> js ''DE'' \<and> slice 0 2 s \<noteq> js ''FR'' \<and> slice 0 2 s \<noteq> js ''GB'' \<longrightarrow>
        extractBankAccountInfo s =
          Inr \<lparr>isValid = True,
               message = ''Successfully extracted bank account information'',
               countryCode = slice 0 2 s, bankCode = slice 4 8 s, branchCode = [],
               accountNumber = sliceFrom 8 s\<rparr> \<and>
        slice 4 8 s \<noteq> [] \<and> sliceFrom 8 s \<noteq> []) \<and>
     (slice 0 2 s = js ''DE'' \<and> length s \<noteq> 22 \<or>
      slice 0 2 s = js ''FR'' \<and> length s \<noteq> 27 \<or>
      slice 0 2 s = js ''GB'' \<and> length s \<noteq> 22 \<longrightarrow>
        extractBankAccountInfo s =
          Inr \<lparr>isValid = True,
               message = ''Partial information extracted due to unknown country format'',
               countryCode = slice 0 2 s, bankCode = [], branchCode = [],
               accountNumber = []\<rparr>)"
proof -
  note clean = valid_normalized(1) [OF assms]
  note len = valid_normalized(2) [OF assms]
  have country: "getCountryFromIban s = slice 0 2 s"
    using getCountryFromIban_cleaned [of s] len by (simp add: clean)
  have distinct: "js ''DE'' \<noteq> js ''FR''" "js ''DE'' \<noteq> js ''GB''" "js ''FR'' \<noteq> js ''GB''"
    by (simp_all add: js_def)
  have bank: "slice 4 8 s \<noteq> []" and account: "sliceFrom 8 s \<noteq> []"
    using len by (simp_all add: slice_def sliceFrom_def)
  have ex: "extractBankAccountInfo s =
      (case bankFields (slice 0 2 s) s of
         (bank, branch, account) \<Rightarrow>
           Inr \<lparr>isValid = True,
                message =
                  (if bank \<noteq> [] then ''Successfully extracted bank account information''
                   else ''Partial information extracted due to unknown country format''),
                countryCode = slice 0 2 s, bankCode = bank, branchCode = branch,
                accountNumber = account\<rparr>)"
    by (simp add: extractBankAccountInfo_def Let_def clean assms(2) country)
  show ?thesis
    unfolding ex using len bank account distinct
    by (auto simp: bankFields_def)
qed

theorem decompose_fallback_witness:
  "list_all isUpperAlnum (js ''NL91ABNA0417164300'') \<and>
   validateIban (js ''NL91ABNA0417164300'') = Inr True \<and>
   extractBankAccountInfo (js ''NL91ABNA0417164300'') =
     Inr \<lparr>isValid = True,
          message = ''Successfully extracted bank account information'',
          countryCode = js ''NL'', bankCode = js ''ABNA'', branchCode = [],
          accountNumber = js ''0417164300''\<rparr> \<and>
   list_all isUpperAlnum (js ''GB31NWBK601613319268'') \<and>
   validateIban (js ''GB31NWBK601613319268'') = Inr True \<and>
   length (js ''GB31NWBK601613319268'') \<noteq> 22 \<and>
   extractBankAccountInfo (js ''GB31NWBK601613319268'') =
     Inr \<lparr>isValid = True,
          message = ''Partial information extracted due to unknown country format'',
          countryCode = js ''GB'', bankCode = [], branchCode = [], accountNumber = []\<rparr>"
proof -
  have a: "list_all isUpperAlnum (js ''NL91ABNA0417164300'')"
    by (simp add: js_eval spec_eval)
  have b: "validateIban (js ''NL91ABNA0417164300'') = Inr True"
    by (simp add: js_eval)
  have c: "list_all isUpperAlnum (js ''GB31NWBK601613319268'')"
    by (simp add: js_eval spec_eval)
  have d: "validateIban (js ''GB31NWBK601613319268'') = Inr True"
    by (simp add: js_eval)
  show ?thesis
    using a b c d decompose_fallback [OF a b] decompose_fallback [OF c d]
    by (simp add: js_def slice_def sliceFrom_def)
qed

text \<open>
  A valid German IBAN of 15 characters gets empty fields, not \<open>0000\<close> and \<open>0000000\<close>;
  and a valid Dutch IBAN, whose country has no layout, is reported as successfully
  extracted.
\<close>

theorem decompose_fallback_counterexample:
  "validateIban (js ''DE3600000000000'') = Inr True \<and>
   extractBankAccountInfo (js ''DE3600000000000'') =
     Inr \<lparr>isValid = True,
          message = ''Partial information extracted due to unknown country format'',
          countryCode = js ''DE'', bankCode = [], branchCode = [], accountNumber = []\<rparr> \<and>
   slice 4 8 (js ''DE3600000000000'') = js ''0000'' \<and>
   sliceFrom 8 (js ''DE3600000000000'') = js ''0000000''"
  by (simp add: js_eval)

lemma unknown_country_reported_complete:
  "validateIban (js ''NL91ABNA0417164300'') = Inr True \<and>
   extractBankAccountInfo (js ''NL91ABNA0417164300'') =
     Inr \<lparr>isValid = True,
          message = ''Successfully extracted bank account information'',
          countryCode = js ''NL'', bankCode = js ''ABNA'', branchCode = [],
          accountNumber = js ''0417164300''\<rparr>"
  by (simp add: js_eval)

section \<open>The country code of an input\<close>



section \<open>No exception\<close>

text \<open>
  C9. \<open>validateIban\<close>, \<open>getValidationMessage\<close> and \<open>extractBankAccountInfo\<close> return a
  result for every input string, whatever its code units, and never throw; and whenever
  the pattern test of \<open>validateIban\<close> has passed, the string handed to \<open>BigInt\<close> is a
  non-empty string of decimal digits, which \<open>BigInt\<close> converts. (\<open>normalize\<close>,
  \<open>formatIban\<close> and \<open>getCountryFromIban\<close> use no operation that can throw; their
  models are total functions without an error case.)
\<close>

theorem never_throws:
  "(\<exists>b. validateIban x = Inr b) \<and>
   (\<exists>r. getValidationMessage x = Inr r) \<and>
   (\<exists>i. extractBankAccountInfo x = Inr i) \<and>
   (matchesIbanFormat c \<longrightarrow>
      concat (map expandChar (sliceFrom 4 c @ slice 0 4 c)) \<noteq> [] \<and>
      list_all isDigit09 (concat (map expandChar (sliceFrom 4 c @ slice 0 4 c))) \<and>
      (\<exists>n. BigInt (concat (map expandChar (sliceFrom 4 c @ slice 0 4 c))) = Inr n))"
proof (intro conjI impI)
  show "\<exists>b. validateIban x = Inr b"
    by (simp add: validateIban_eq)
  show "\<exists>r. getValidationMessage x = Inr r"
    by (simp add: getValidationMessage_eq)
  show "\<exists>i. extractBankAccountInfo x = Inr i"
    by (simp add: extractBankAccountInfo_def Let_def validateIban_eq split: prod.splits)
next
  assume m: "matchesIbanFormat c"
  then have alnum: "list_all isUpperAlnum (sliceFrom 4 c @ slice 0 4 c)"
    by (intro rearranged_alnum matchesIbanFormat_alnum)
  from m have "c \<noteq> []"
    by (auto simp: matchesIbanFormat_def)
  then have "sliceFrom 4 c @ slice 0 4 c \<noteq> []"
    by (simp add: sliceFrom_def slice_def)
  then show "concat (map expandChar (sliceFrom 4 c @ slice 0 4 c)) \<noteq> []"
    by (rule numeric_nonempty)
  show "list_all isDigit09 (concat (map expandChar (sliceFrom 4 c @ slice 0 4 c)))"
    using alnum by (rule numeric_digits)
  show "\<exists>n. BigInt (concat (map expandChar (sliceFrom 4 c @ slice 0 4 c))) = Inr n"
    using numeric_parses [OF m] by (rule exI)
qed

theorem never_throws_witness:
  "matchesIbanFormat (js ''GB29NWBK60161331926819'') \<and>
   concat (map expandChar
     (sliceFrom 4 (js ''GB29NWBK60161331926819'') @ slice 0 4 (js ''GB29NWBK60161331926819''))) =
     js ''2332112060161331926819161129'' \<and>
   BigInt (js ''2332112060161331926819161129'') = Inr 2332112060161331926819161129 \<and>
   (\<exists>b. validateIban [0xD83D, 0xDE00, 0x20, 0xDF] = Inr b) \<and>
   (\<exists>r. getValidationMessage [0xD83D, 0xDE00, 0x20, 0xDF] = Inr r) \<and>
   (\<exists>i. extractBankAccountInfo [0xD83D, 0xDE00, 0x20, 0xDF] = Inr i)"
proof -
  have m: "matchesIbanFormat (js ''GB29NWBK60161331926819'')"
    by (simp add: js_eval)
  have n: "concat (map expandChar
      (sliceFrom 4 (js ''GB29NWBK60161331926819'') @ slice 0 4 (js ''GB29NWBK60161331926819''))) =
      js ''2332112060161331926819161129''"
    by (simp add: js_eval)
  have v: "BigInt (js ''2332112060161331926819161129'') = Inr 2332112060161331926819161129"
    by (simp add: js_eval)
  show ?thesis
    using m n v never_throws [of "[0xD83D, 0xDE00, 0x20, 0xDF]" "js ''GB29NWBK60161331926819''"]
    by simp
qed

section \<open>The two validation paths\<close>

text \<open>
  C10 states that \<open>getValidationMessage\<close> reports an input as valid exactly when
  \<open>validateIban\<close> accepts it. \<open>validateIban\<close> measures the length after the conversion to
  upper case, \<open>getValidationMessage\<close> before it, and the conversion can lengthen a
  string: the 14 code units U+00DF \<open>5300000000000\<close> become the 15 characters
  \<open>SS5300000000000\<close>, which \<open>validateIban\<close> accepts while \<open>getValidationMessage\<close>
  reports the input as too short.
\<close>

theorem message_path_disagrees:
  "validateIban (0xDF # js ''5300000000000'') = Inr True \<and>
   getValidationMessage (0xDF # js ''5300000000000'') =
     Inr \<lparr>isValid = False, message = ''IBAN is too short''\<rparr> \<and>
   toUpperCase (0xDF # js ''5300000000000'') = js ''SS5300000000000''"
  by (simp add: js_eval upperUnit_def upperCaseSpecial_def)

text \<open>
  The message path never accepts what \<open>validateIban\<close> rejects, and the two paths agree
  on every input whose length the conversion to upper case keeps, so on every input in
  ASCII.
\<close>

lemma message_path_sound:
  "getValidationMessage x = Inr r \<Longrightarrow> isValid r \<Longrightarrow> validateIban x = Inr True"
  by (auto simp: getValidationMessage_eq validateIban_eq split: if_splits)

lemma message_path_agrees_when_length_kept:
  assumes "length (toUpperCase (removeWhitespace x)) = length (removeWhitespace x)"
  shows "\<exists>r. getValidationMessage x = Inr r \<and> validateIban x = Inr (isValid r)"
proof -
  have "startsWithCountryCode c" if "matchesIbanFormat c" for c
    using that by (simp add: matchesIbanFormat_def startsWithCountryCode_def)
  moreover have "x \<noteq> []" if "structureOk (toUpperCase (removeWhitespace x))"
    using structureOk_nonempty [OF that] by (auto simp: removeWhitespace_Nil toUpperCase_def)
  ultimately show ?thesis
    using assms by (auto simp: getValidationMessage_eq validateIban_eq structureOk_def)
qed

lemma message_path_agrees_ascii:
  assumes "list_all (\<lambda>c. c < 0x80) x"
  shows "\<exists>r. getValidationMessage x = Inr r \<and> validateIban x = Inr (isValid r)"
  using assms
  by (intro message_path_agrees_when_length_kept length_toUpperCase_ascii removeWhitespace_ascii)

end
